theory Spec2Isabelle
  imports Complex_Main
begin

section \<open>JavaScript values, prompts and process exit\<close>

text \<open>
  The prompt functions of \<^verbatim>\<open>src/unnamed/part_000\<close> destructure the answers object
  of the \<^verbatim>\<open>prompts\<close> library. A destructured answer is a value or \<^verbatim>\<open>undefined\<close>:
  it is modelled as an \<open>option\<close>, \<open>None\<close> being \<^verbatim>\<open>undefined\<close>. Numbers are the
  integers a number prompt yields, dates are milliseconds since the epoch.

  The relational operators convert \<^verbatim>\<open>undefined\<close> to \<^verbatim>\<open>NaN\<close>, and every
  comparison with \<^verbatim>\<open>NaN\<close> is false.
\<close>

fun js_lt :: "int option \<Rightarrow> int option \<Rightarrow> bool" where
  "js_lt (Some a) (Some b) = (a < b)"
| "js_lt _ _ = False"

fun js_le :: "int option \<Rightarrow> int option \<Rightarrow> bool" where
  "js_le (Some a) (Some b) = (a \<le> b)"
| "js_le _ _ = False"

fun js_gt :: "int option \<Rightarrow> int option \<Rightarrow> bool" where
  "js_gt (Some a) (Some b) = (a > b)"
| "js_gt _ _ = False"

fun js_ge :: "int option \<Rightarrow> int option \<Rightarrow> bool" where
  "js_ge (Some a) (Some b) = (a \<ge> b)"
| "js_ge _ _ = False"

text \<open>
  Logical negation \<^verbatim>\<open>!x\<close>: \<^verbatim>\<open>undefined\<close> and the empty string are falsy, an
  object (a \<^verbatim>\<open>Date\<close>, a document) is always truthy.
\<close>

fun js_not_text :: "string option \<Rightarrow> bool" where
  "js_not_text None = True"
| "js_not_text (Some s) = (s = [])"

fun js_not_object :: "'a option \<Rightarrow> bool" where
  "js_not_object None = True"
| "js_not_object (Some _) = False"

fun js_truthy_bool :: "bool option \<Rightarrow> bool" where
  "js_truthy_bool None = False"
| "js_truthy_bool (Some b) = b"

text \<open>
  \<^verbatim>\<open>String(n)\<close> for an integer, as a template literal prints it.
\<close>

fun digits :: "nat \<Rightarrow> string" where
  "digits n =
     (if n < 10 then [''0123456789'' ! n]
      else digits (n div 10) @ [''0123456789'' ! (n mod 10)])"

definition js_string_of_int :: "int \<Rightarrow> string" where
  "js_string_of_int i = (if i < 0 then ''-'' @ digits (nat (- i)) else digits (nat i))"

text \<open>
  \<^verbatim>\<open>theme\<close> and \<^verbatim>\<open>symbols\<close> come from \<^verbatim>\<open>constants.js\<close>, which is not among
  the sources: the styling functions and the error symbol are parameters.
\<close>

record constants =
  theme_bold :: "string \<Rightarrow> string"
  theme_red :: "string \<Rightarrow> string"
  theme_magenta :: "string \<Rightarrow> string"
  symbols_error :: string

text \<open>
  An inline validator answers \<^verbatim>\<open>true\<close> or a rejection message.
\<close>

datatype verdict = JsTrue | Message string

record 'a PromptObject =
  ptype :: string
  name :: string
  message :: string
  validate :: "'a \<Rightarrow> verdict"

datatype GENERIC_ERRORS =
  GENERIC_DATA_INPUT | GENERIC_CIRCUIT_SELECTION | GENERIC_CEREMONY_SELECTION

text \<open>
  What an asynchronous function of the module does: it returns a value, the process exits
  under an error, or the function stays suspended on a prompt the operator never completes.
\<close>

datatype 'a outcome = Returned 'a | Exited GENERIC_ERRORS | Suspended

fun await :: "'a outcome \<Rightarrow> ('a \<Rightarrow> 'b outcome) \<Rightarrow> 'b outcome" where
  "await (Returned v) k = k v"
| "await (Exited e) k = Exited e"
| "await Suspended k = Suspended"

text \<open>
  Modelled from the spec: \<^verbatim>\<open>showError\<close> of \<^verbatim>\<open>errors.js\<close>, which is not among the
  sources. Section 7: every fatal condition immediately halts the entire process after
  printing a styled error message. With the flag unset the message is printed and control
  returns to the caller. The printed text is not part of the model.
\<close>

definition showError :: "GENERIC_ERRORS \<Rightarrow> bool \<Rightarrow> unit outcome" where
  "showError err doExit = (if doExit then Exited err else Returned ())"

text \<open>
  The \<^verbatim>\<open>prompts\<close> library is an external dependency. Its documented behaviour for one
  question is modelled over the operator's actions at that question, in order: a submitted
  value goes through the question's \<^verbatim>\<open>validate\<close>; a rejected value shows the message
  and asks again; an accepted value is the answer; cancelling leaves the answer unset
  (\<^verbatim>\<open>undefined\<close> after destructuring). A list of actions that ends before an accepted
  value or a cancel is an operator who never completes the prompt.
\<close>

datatype 'a attempt = Submit 'a | Cancel

fun prompts :: "'a PromptObject \<Rightarrow> 'a attempt list \<Rightarrow> 'a option outcome" where
  "prompts q [] = Suspended"
| "prompts q (Cancel # rest) = Returned None"
| "prompts q (Submit v # rest) =
     (if validate q v = JsTrue then Returned (Some v) else prompts q rest)"

text \<open>
  \<^verbatim>\<open>askForConfirmation\<close>: a toggle with no validator; the labels are display only.
\<close>

definition askForConfirmation ::
  "constants \<Rightarrow> string \<Rightarrow> string \<Rightarrow> string \<Rightarrow> bool attempt list \<Rightarrow> bool option outcome" where
  "askForConfirmation c question active inactive script =
     prompts \<lparr>ptype = ''toggle'', name = ''confirmation'',
              message = theme_bold c question, validate = (\<lambda>_. JsTrue)\<rparr> script"

section \<open>The ceremony builder\<close>

datatype CeremonyTimeoutType = DYNAMIC | FIXED

record CeremonyInputData =
  title :: "string option"
  description :: "string option"
  startDate :: "int option"
  endDate :: "int option"
  timeoutMechanismType :: CeremonyTimeoutType
  penalty :: "int option"

text \<open>
  The questions of \<^verbatim>\<open>askCeremonyInputData\<close>. \<^verbatim>\<open>extractPrefix\<close> is a function of
  \<^verbatim>\<open>utils.js\<close>, which is not among the sources, and the known prefixes are read from
  the remote store by \<^verbatim>\<open>getCreatedCeremoniesPrefixes\<close>: both are parameters.
  \<^verbatim>\<open>Array.prototype.includes\<close> on strings is membership.
\<close>

definition title_question ::
  "constants \<Rightarrow> (string \<Rightarrow> string) \<Rightarrow> string list \<Rightarrow> string PromptObject" where
  "title_question c extractPrefix ceremoniesPrefixes =
     \<lparr>ptype = ''text'', name = ''title'',
      message = theme_bold c ''Give a title to your ceremony'',
      validate = (\<lambda>title'.
        if length title' \<le> 0 then
          Message (theme_red c (symbols_error c @ '' You must provide a valid title for your ceremony!''))
        else if extractPrefix title' \<in> set ceremoniesPrefixes then
          Message (theme_red c (symbols_error c @ '' The title is already in use for another ceremony!''))
        else JsTrue)\<rparr>"

definition description_question :: "constants \<Rightarrow> string PromptObject" where
  "description_question c =
     \<lparr>ptype = ''text'', name = ''description'',
      message = theme_bold c ''Add a description'',
      validate = (\<lambda>title'.
        if length title' > 0 then JsTrue
        else Message (theme_red c (symbols_error c @ '' You must provide a valid description!'')))\<rparr>"

text \<open>
  The validator of the opening date reads \<^verbatim>\<open>Date.now()\<close> each time it runs: a
  submission to this prompt is the pair of the clock reading at that moment and the date.
\<close>

definition startDate_question :: "constants \<Rightarrow> (int \<times> int) PromptObject" where
  "startDate_question c =
     \<lparr>ptype = ''date'', name = ''startDate'',
      message = theme_bold c ''When should the ceremony open?'',
      validate = (\<lambda>(now, d).
        if js_gt (Some d) (Some now) then JsTrue
        else Message (theme_red c (symbols_error c @ '' You cannot start a ceremony in the past!'')))\<rparr>"

definition endDate_question :: "constants \<Rightarrow> int option \<Rightarrow> int PromptObject" where
  "endDate_question c startDate' =
     \<lparr>ptype = ''date'', name = ''endDate'',
      message = theme_bold c ''And when close?'',
      validate = (\<lambda>d.
        if js_gt (Some d) startDate' then JsTrue
        else Message (theme_red c (symbols_error c @ '' You cannot close a ceremony before the opening!'')))\<rparr>"

definition penalty_question :: "constants \<Rightarrow> int PromptObject" where
  "penalty_question c =
     \<lparr>ptype = ''number'', name = ''penalty'',
      message = theme_bold c
        ''Specify the amount of time a blocking contributor needs to wait when timedout (in minutes):'',
      validate = (\<lambda>penalty'.
        if js_lt (Some penalty') (Some 0) then
          Message (theme_red c (symbols_error c @ '' You must provide a penalty greater than zero''))
        else JsTrue)\<rparr>"

record ceremony_operator =
  title_in :: "string attempt list"
  description_in :: "string attempt list"
  startDate_in :: "(int \<times> int) attempt list"
  endDate_in :: "int attempt list"
  confirmation_in :: "bool attempt list"
  penalty_in :: "int attempt list"

text \<open>
  \<^verbatim>\<open>prompts(noEndDateCeremonyQuestions)\<close>: the questions are asked in order, and a
  cancelled question ends the call with the answers collected so far.
\<close>

definition prompts_noEndDateCeremonyQuestions ::
  "constants \<Rightarrow> (string \<Rightarrow> string) \<Rightarrow> string list \<Rightarrow> ceremony_operator \<Rightarrow>
   (string option \<times> string option \<times> int option) outcome" where
  "prompts_noEndDateCeremonyQuestions c extractPrefix ceremoniesPrefixes op =
     await (prompts (title_question c extractPrefix ceremoniesPrefixes) (title_in op)) (\<lambda>title'.
       if title' = None then Returned (None, None, None) else
     await (prompts (description_question c) (description_in op)) (\<lambda>description'.
       if description' = None then Returned (title', None, None) else
     await (prompts (startDate_question c) (startDate_in op)) (\<lambda>startDate'.
       Returned (title', description', map_option snd startDate'))))"

text \<open>
  The statements after the penalty prompt (the check on \<^verbatim>\<open>penalty < 0\<close> and the
  returned object), over the values the local variables hold at that point.
\<close>

definition after_penalty ::
  "string option \<Rightarrow> string option \<Rightarrow> int option \<Rightarrow> int option \<Rightarrow> bool option \<Rightarrow> int option \<Rightarrow>
   CeremonyInputData outcome" where
  "after_penalty title' description' startDate' endDate' timeoutMechanismType' penalty' =
     await (if js_lt penalty' (Some 0) then showError GENERIC_DATA_INPUT True else Returned ()) (\<lambda>_.
     Returned \<lparr>title = title', description = description', startDate = startDate',
               endDate = endDate',
               timeoutMechanismType = (if js_truthy_bool timeoutMechanismType' then DYNAMIC else FIXED),
               penalty = penalty'\<rparr>)"

definition askCeremonyInputData ::
  "constants \<Rightarrow> (string \<Rightarrow> string) \<Rightarrow> string list \<Rightarrow> ceremony_operator \<Rightarrow>
   CeremonyInputData outcome" where
  "askCeremonyInputData c extractPrefix ceremoniesPrefixes op =
     await (prompts_noEndDateCeremonyQuestions c extractPrefix ceremoniesPrefixes op)
       (\<lambda>(title', description', startDate').
     await (if js_not_text title' \<or> js_not_text description' \<or> js_not_object startDate'
            then showError GENERIC_DATA_INPUT True else Returned ()) (\<lambda>_.
     await (prompts (endDate_question c startDate') (endDate_in op)) (\<lambda>endDate'.
     await (if js_not_object endDate' then showError GENERIC_DATA_INPUT True else Returned ()) (\<lambda>_.
     await (askForConfirmation c
              ''Choose which timeout mechanism you would like to use to penalize blocking contributors''
              ''Dynamic'' ''Fixed'' (confirmation_in op)) (\<lambda>timeoutMechanismType'.
     await (prompts (penalty_question c) (penalty_in op)) (\<lambda>penalty'.
     after_penalty title' description' startDate' endDate' timeoutMechanismType' penalty'))))))"

section \<open>The circuit builder\<close>

text \<open>
  The returned object literal has \<^verbatim>\<open>description\<close> and one of the two policy keys.
  A policy field is \<open>None\<close> when the object has no such key, \<open>Some None\<close> when the key
  is there and holds \<^verbatim>\<open>undefined\<close>, \<open>Some (Some n)\<close> when it holds the number \<open>n\<close>.
\<close>

record CircuitInputData =
  description :: "string option"
  timeoutThreshold :: "int option option"
  timeoutMaxContributionWaitingTime :: "int option option"

definition populated :: "int option option \<Rightarrow> bool" where
  "populated field = (case field of Some (Some n) \<Rightarrow> True | _ \<Rightarrow> False)"

definition circuitQuestions :: "constants \<Rightarrow> string PromptObject" where
  "circuitQuestions c =
     \<lparr>ptype = ''text'', name = ''description'',
      message = theme_bold c ''Add a description'',
      validate = (\<lambda>v.
        if length v \<noteq> 0 then JsTrue
        else Message (theme_red c (symbols_error c @ '' You must provide a valid description'')))\<rparr>"

definition threshold_question :: "constants \<Rightarrow> int PromptObject" where
  "threshold_question c =
     \<lparr>ptype = ''number'', name = ''threshold'',
      message = theme_bold c
        ''Provide an additional threshold up to the total average contribution time (in percentage):'',
      validate = (\<lambda>threshold.
        if js_lt (Some threshold) (Some 0) \<or> js_gt (Some threshold) (Some 100) then
          Message (theme_red c (symbols_error c @ '' You must provide a threshold between 0 and 100''))
        else JsTrue)\<rparr>"

definition maxContributionWaitingTime_question :: "constants \<Rightarrow> int PromptObject" where
  "maxContributionWaitingTime_question c =
     \<lparr>ptype = ''number'', name = ''maxContributionWaitingTime'',
      message = theme_bold c
        ''Specify the max amount of time tolerable while contributing (in minutes):'',
      validate = (\<lambda>threshold.
        if js_le (Some threshold) (Some 0) then
          Message (theme_red c (symbols_error c @
            '' You must provide a maximum contribution waiting time greater than zero''))
        else JsTrue)\<rparr>"

record circuit_operator =
  circuit_description_in :: "string attempt list"
  threshold_in :: "int attempt list"
  maxContributionWaitingTime_in :: "int attempt list"

text \<open>
  The statements after the threshold prompt inside the \<^verbatim>\<open>DYNAMIC\<close> branch: the bound
  check, then the assignment to \<^verbatim>\<open>timeoutThreshold\<close>, whose new value is returned.
\<close>

definition after_threshold :: "int option \<Rightarrow> int option outcome" where
  "after_threshold threshold =
     await (if js_lt threshold (Some 0) \<or> js_gt threshold (Some 100)
            then showError GENERIC_DATA_INPUT True else Returned ()) (\<lambda>_.
     Returned threshold)"

text \<open>
  The same inside the \<^verbatim>\<open>FIXED\<close> branch, for \<^verbatim>\<open>timeoutMaxContributionWaitingTime\<close>.
\<close>

definition after_maxContributionWaitingTime :: "int option \<Rightarrow> int option outcome" where
  "after_maxContributionWaitingTime maxContributionWaitingTime =
     await (if js_le maxContributionWaitingTime (Some 0)
            then showError GENERIC_DATA_INPUT True else Returned ()) (\<lambda>_.
     Returned maxContributionWaitingTime)"

text \<open>
  The final re-validation and the returned object, over the values of the local variables.
\<close>

definition circuit_result ::
  "CeremonyTimeoutType \<Rightarrow> string option \<Rightarrow> int option \<Rightarrow> int option \<Rightarrow> CircuitInputData outcome" where
  "circuit_result timeoutMechanismType' description' timeoutThreshold'
       timeoutMaxContributionWaitingTime' =
     await (if js_not_text description' \<or>
               (timeoutMechanismType' = DYNAMIC \<and> js_lt timeoutThreshold' (Some 0)) \<or>
               (timeoutMechanismType' = FIXED \<and> js_lt timeoutMaxContributionWaitingTime' (Some 0))
            then showError GENERIC_DATA_INPUT True else Returned ()) (\<lambda>_.
     Returned (if timeoutMechanismType' = DYNAMIC
       then \<lparr>description = description', timeoutThreshold = Some timeoutThreshold',
             timeoutMaxContributionWaitingTime = None\<rparr>
       else \<lparr>description = description', timeoutThreshold = None,
             timeoutMaxContributionWaitingTime = Some timeoutMaxContributionWaitingTime'\<rparr>))"

definition askCircuitInputData ::
  "constants \<Rightarrow> CeremonyTimeoutType \<Rightarrow> circuit_operator \<Rightarrow> CircuitInputData outcome" where
  "askCircuitInputData c timeoutMechanismType' op =
     await (prompts (circuitQuestions c) (circuit_description_in op)) (\<lambda>description'.
     await (if timeoutMechanismType' = DYNAMIC
            then await (prompts (threshold_question c) (threshold_in op)) after_threshold
            else Returned (Some 0)) (\<lambda>timeoutThreshold'.
     await (if timeoutMechanismType' = FIXED
            then await (prompts (maxContributionWaitingTime_question c)
                          (maxContributionWaitingTime_in op)) after_maxContributionWaitingTime
            else Returned (Some 0)) (\<lambda>timeoutMaxContributionWaitingTime'.
     circuit_result timeoutMechanismType' description' timeoutThreshold'
       timeoutMaxContributionWaitingTime')))"

section \<open>The selection prompts\<close>

record Dirent =
  dirent_name :: string

record 'v Choice =
  choice_title :: string
  choice_description :: "string option"
  choice_value :: 'v

text \<open>
  A select prompt of the \<^verbatim>\<open>prompts\<close> library: the operator moves the cursor to an
  entry and submits it, or cancels. The answer is the \<^verbatim>\<open>value\<close> of the chosen entry.
  With no entry to choose from no selection can be made and the answer stays unset. A select
  prompt runs no validator.
\<close>

fun select :: "'v Choice list \<Rightarrow> nat attempt list \<Rightarrow> 'v option outcome" where
  "select [] script = Returned None"
| "select choices [] = Suspended"
| "select choices (Cancel # rest) = Returned None"
| "select choices (Submit i # rest) =
     (if i < length choices then Returned (Some (choice_value (choices ! i)))
      else select choices rest)"

text \<open>
  The loop of \<^verbatim>\<open>askForPtauSelectionFromLocalDir\<close> that pushes one choice for each
  eligible entry. \<^verbatim>\<open>extractPoTFromFilename\<close> is a function of \<^verbatim>\<open>utils.js\<close>, which
  is not among the sources: the loop takes it as a parameter, with \<open>None\<close> for a result
  that is not a number.
\<close>

fun ptau_choices ::
  "(string \<Rightarrow> int option) \<Rightarrow> int \<Rightarrow> Dirent list \<Rightarrow> string Choice list \<Rightarrow> string Choice list" where
  "ptau_choices extractPoT suggestedPowers [] choices = choices"
| "ptau_choices extractPoT suggestedPowers (ptauDirent # ptausDirents) choices =
     (let powers = extractPoT (dirent_name ptauDirent) in
      ptau_choices extractPoT suggestedPowers ptausDirents
        (if js_ge powers (Some suggestedPowers)
         then choices @ [\<lparr>choice_title = dirent_name ptauDirent, choice_description = None,
                          choice_value = dirent_name ptauDirent\<rparr>]
         else choices))"

text \<open>
  The validator the source passes to the select prompt of the Powers of Tau files.
\<close>

definition ptau_validate :: "(string \<Rightarrow> int option) \<Rightarrow> int \<Rightarrow> string \<Rightarrow> bool" where
  "ptau_validate extractPoT suggestedPowers v = js_ge (extractPoT v) (Some suggestedPowers)"

definition askForPtauSelectionFromLocalDir ::
  "(string \<Rightarrow> int option) \<Rightarrow> Dirent list \<Rightarrow> int \<Rightarrow> nat attempt list \<Rightarrow>
   string option outcome" where
  "askForPtauSelectionFromLocalDir extractPoT ptausDirents suggestedPowers script =
     await (select (ptau_choices extractPoT suggestedPowers ptausDirents []) script) (\<lambda>ptau.
     await (if js_not_text ptau then showError GENERIC_CIRCUIT_SELECTION True else Returned ()) (\<lambda>_.
     Returned ptau))"

text \<open>
  Modelled from the spec: \<^verbatim>\<open>extractPoTFromFilename\<close> of \<^verbatim>\<open>utils.js\<close>, which is not
  among the sources. Section 6: it parses a numeric suffix encoding from a parameter
  filename. Here the suffix is the run of decimal digits that ends the name before its
  extension; a name without one gives no number.
\<close>

definition is_digit :: "char \<Rightarrow> bool" where
  "is_digit ch = (ch \<in> set ''0123456789'')"

definition digit_value :: "char \<Rightarrow> int" where
  "digit_value ch = int (length (takeWhile (\<lambda>d. d \<noteq> ch) ''0123456789''))"

definition decimal :: "string \<Rightarrow> int" where
  "decimal ds = foldl (\<lambda>acc ch. 10 * acc + digit_value ch) 0 ds"

definition extractPoTFromFilename :: "string \<Rightarrow> int option" where
  "extractPoTFromFilename filename =
     (let stem = takeWhile (\<lambda>ch. ch \<noteq> CHR ''.'') filename;
          suffix = rev (takeWhile is_digit (rev stem))
      in if suffix = [] then None else Some (decimal suffix))"

text \<open>
  \<^verbatim>\<open>askForCeremonySelection\<close>. A document carries the fields of its \<^verbatim>\<open>data\<close> that
  the function reads. \<^verbatim>\<open>Date.now()\<close> is read once in every iteration of the loop:
  \<open>clock i\<close> is the reading in iteration \<open>i\<close>. The division is the exact quotient.
\<close>

record FirebaseDocumentInfo =
  doc_id :: string
  data_title :: string
  data_description :: string
  data_endDate :: int

definition daysLeft :: "int \<Rightarrow> int \<Rightarrow> int" where
  "daysLeft now endDate' = \<lceil>real_of_int \<bar>now - endDate'\<bar> / (1000 * 60 * 60 * 24)\<rceil>"

definition ceremony_choice :: "constants \<Rightarrow> int \<Rightarrow> FirebaseDocumentInfo \<Rightarrow> FirebaseDocumentInfo Choice" where
  "ceremony_choice c now ceremonyDoc =
     \<lparr>choice_title = data_title ceremonyDoc,
      choice_description = Some (data_description ceremonyDoc @ '' ('' @
        theme_magenta c (js_string_of_int (daysLeft now (data_endDate ceremonyDoc))) @ '' '' @
        (if now - data_endDate ceremonyDoc < 0 then ''days left'' else ''days gone since closing'') @
        '')''),
      choice_value = ceremonyDoc\<rparr>"

fun ceremony_choices ::
  "constants \<Rightarrow> (nat \<Rightarrow> int) \<Rightarrow> nat \<Rightarrow> FirebaseDocumentInfo list \<Rightarrow>
   FirebaseDocumentInfo Choice list \<Rightarrow> FirebaseDocumentInfo Choice list" where
  "ceremony_choices c clock i [] choices = choices"
| "ceremony_choices c clock i (ceremonyDoc # openedCeremoniesDocs) choices =
     ceremony_choices c clock (Suc i) openedCeremoniesDocs
       (choices @ [ceremony_choice c (clock i) ceremonyDoc])"

definition askForCeremonySelection ::
  "constants \<Rightarrow> (nat \<Rightarrow> int) \<Rightarrow> FirebaseDocumentInfo list \<Rightarrow> nat attempt list \<Rightarrow>
   FirebaseDocumentInfo option outcome" where
  "askForCeremonySelection c clock openedCeremoniesDocs script =
     await (select (ceremony_choices c clock 0 openedCeremoniesDocs []) script) (\<lambda>ceremony.
     await (if js_not_object ceremony then showError GENERIC_CEREMONY_SELECTION True else Returned ()) (\<lambda>_.
     Returned ceremony))"

section \<open>Reference predicates and fixtures\<close>

text \<open>
  The uniqueness validator as section 4.1 of the specification words it:
  \<^verbatim>\<open>isUniquePrefix(title, knownPrefixes)\<close> computes the normalized prefix of the title
  and checks its absence from the known prefixes. It is compared below with the check the
  title question makes.
\<close>

definition isUniquePrefix :: "(string \<Rightarrow> string) \<Rightarrow> string \<Rightarrow> string list \<Rightarrow> bool" where
  "isUniquePrefix extractPrefix title' knownPrefixes = (extractPrefix title' \<notin> set knownPrefixes)"

text \<open>
  A rendering without colours and a prefix function that lowers nothing, for running the
  functions on concrete inputs.
\<close>

definition plain :: constants where
  "plain = \<lparr>theme_bold = (\<lambda>s. s), theme_red = (\<lambda>s. s), theme_magenta = (\<lambda>s. s),
            symbols_error = ''x''\<rparr>"

definition day_ms :: int where
  "day_ms = 1000 * 60 * 60 * 24"

text \<open>
  A coordinator who first proposes an opening date in the past, then a valid one, a closing
  date equal to the opening and then a later one, picks the dynamic mechanism and a
  penalty of zero after trying a negative one.
\<close>

definition coordinator :: ceremony_operator where
  "coordinator =
     \<lparr>title_in = [Submit '''', Submit ''old'', Submit ''fresh''],
      description_in = [Submit ''a ceremony''],
      startDate_in = [Submit (1000, 900), Submit (1000, 2000)],
      endDate_in = [Submit 2000, Submit 3000],
      confirmation_in = [Submit True],
      penalty_in = [Submit (- 5), Submit 0]\<rparr>"

section \<open>Properties of the prompt model\<close>

lemma await_Returned:
  "await m k = Returned r \<longleftrightarrow> (\<exists>v. m = Returned v \<and> k v = Returned r)"
  by (cases m) auto

lemma prompts_answer:
  "prompts q script = Returned (Some v) \<Longrightarrow> Submit v \<in> set script \<and> validate q v = JsTrue"
proof (induction script)
  case Nil
  then show ?case by simp
next
  case (Cons a script)
  then show ?case by (cases a) (auto split: if_splits)
qed

lemma prompts_never_exits: "prompts q script \<noteq> Exited e"
proof (induction script)
  case Nil
  show ?case by simp
next
  case (Cons a script)
  then show ?case by (cases a) auto
qed

lemma startDate_valid [simp]:
  "validate (startDate_question c) (now, d) = JsTrue \<longleftrightarrow> now < d"
  by (simp add: startDate_question_def)

lemma endDate_valid [simp]:
  "validate (endDate_question c s) d = JsTrue \<longleftrightarrow> js_gt (Some d) s"
  by (simp add: endDate_question_def)

lemma penalty_valid [simp]:
  "validate (penalty_question c) p = JsTrue \<longleftrightarrow> 0 \<le> p"
  by (auto simp add: penalty_question_def)

lemma title_valid [simp]:
  "validate (title_question c xp ps) t = JsTrue \<longleftrightarrow> t \<noteq> [] \<and> xp t \<notin> set ps"
  by (simp add: title_question_def)

lemma description_valid [simp]:
  "validate (description_question c) t = JsTrue \<longleftrightarrow> t \<noteq> []"
  by (simp add: description_question_def)


lemma js_not_object_iff [simp]: "js_not_object x \<longleftrightarrow> x = None"
  by (cases x) auto

lemma js_not_text_iff [simp]: "js_not_text x \<longleftrightarrow> x = None \<or> x = Some []"
  by (cases x) auto

lemma js_lt_Some0 [simp]: "js_lt p (Some 0) \<longleftrightarrow> (\<exists>n. p = Some n \<and> n < 0)"
  by (cases p) auto

section \<open>Properties of the ceremony builder\<close>

lemma noEndDate_answers:
  assumes "prompts_noEndDateCeremonyQuestions c xp ps op = Returned (Some t, Some d, s)"
  shows "t \<noteq> [] \<and> d \<noteq> []"
  using assms unfolding prompts_noEndDateCeremonyQuestions_def
  by (auto simp add: await_Returned split: if_splits dest!: prompts_answer)

lemma askCeremonyInputData_Returned:
  assumes "askCeremonyInputData c xp ps op = Returned r"
  obtains t d now s e m p where
    "prompts (title_question c xp ps) (title_in op) = Returned (Some t)"
    "prompts (description_question c) (description_in op) = Returned (Some d)"
    "prompts (startDate_question c) (startDate_in op) = Returned (Some (now, s))"
    "prompts (endDate_question c (Some s)) (endDate_in op) = Returned (Some e)"
    "prompts (penalty_question c) (penalty_in op) = Returned p"
    "r = \<lparr>title = Some t, description = Some d, startDate = Some s, endDate = Some e,
           timeoutMechanismType = (if js_truthy_bool m then DYNAMIC else FIXED), penalty = p\<rparr>"
  using assms
  unfolding askCeremonyInputData_def prompts_noEndDateCeremonyQuestions_def after_penalty_def
    showError_def
  by (fastforce simp add: await_Returned split: if_splits prod.splits)

lemma coordinator_run:
  "askCeremonyInputData plain (\<lambda>s. s) [''old''] coordinator =
     Returned \<lparr>title = Some ''fresh'', description = Some ''a ceremony'', startDate = Some 2000,
               endDate = Some 3000, timeoutMechanismType = DYNAMIC, penalty = Some 0\<rparr>"
  by (simp add: askCeremonyInputData_def prompts_noEndDateCeremonyQuestions_def after_penalty_def
      showError_def coordinator_def askForConfirmation_def)

subsection \<open>Dates\<close>

text \<open>
  C2. For every pair of answered dates, the validators of the two date questions accept
  exactly when the opening date is strictly after the clock reading at its submission and
  the closing date is strictly after the opening date; a closing date equal to the opening
  date is rejected. Every returned \<^verbatim>\<open>CeremonyInputData\<close> carries dates the operator
  submitted that satisfy both inequalities.
\<close>

theorem ceremony_dates_accepted_iff:
  "((validate (startDate_question c) (now, start) = JsTrue \<and>
     validate (endDate_question c (Some start)) end' = JsTrue) \<longleftrightarrow> (now < start \<and> start < end'))
   \<and> validate (endDate_question c (Some start)) start \<noteq> JsTrue
   \<and> (askCeremonyInputData c extractPrefix ceremoniesPrefixes op = Returned r \<longrightarrow>
        (\<exists>now' s e. startDate r = Some s \<and> endDate r = Some e \<and>
           Submit (now', s) \<in> set (startDate_in op) \<and> Submit e \<in> set (endDate_in op) \<and>
           now' < s \<and> s < e))"
proof (intro conjI impI)
  assume "askCeremonyInputData c extractPrefix ceremoniesPrefixes op = Returned r"
  then obtain t d now' s e m p where
    s: "prompts (startDate_question c) (startDate_in op) = Returned (Some (now', s))" and
    e: "prompts (endDate_question c (Some s)) (endDate_in op) = Returned (Some e)" and
    r: "r = \<lparr>title = Some t, description = Some d, startDate = Some s, endDate = Some e,
           timeoutMechanismType = (if js_truthy_bool m then DYNAMIC else FIXED), penalty = p\<rparr>"
    by (rule askCeremonyInputData_Returned)
  from prompts_answer[OF s] prompts_answer[OF e] r
  show "\<exists>now' s e. startDate r = Some s \<and> endDate r = Some e \<and>
           Submit (now', s) \<in> set (startDate_in op) \<and> Submit e \<in> set (endDate_in op) \<and>
           now' < s \<and> s < e"
    by auto
qed simp_all

theorem ceremony_dates_accepted_iff_witness:
  "validate (startDate_question plain) (1000, 2000) = JsTrue
   \<and> validate (endDate_question plain (Some 2000)) 3000 = JsTrue
   \<and> validate (startDate_question plain) (1000, 900) \<noteq> JsTrue
   \<and> validate (endDate_question plain (Some 2000)) 2000 \<noteq> JsTrue
   \<and> (\<exists>r now' s e. askCeremonyInputData plain (\<lambda>s. s) [''old''] coordinator = Returned r \<and>
          startDate r = Some s \<and> endDate r = Some e \<and>
          Submit (now', s) \<in> set (startDate_in coordinator) \<and>
          Submit e \<in> set (endDate_in coordinator) \<and> now' < s \<and> s < e)"
  using ceremony_dates_accepted_iff [of plain 1000 2000 3000 "\<lambda>s. s" "[''old'']" coordinator
      "\<lparr>title = Some ''fresh'', description = Some ''a ceremony'', startDate = Some 2000,
        endDate = Some 3000, timeoutMechanismType = DYNAMIC, penalty = Some 0\<rparr>"]
    ceremony_dates_accepted_iff [of plain 1000 900 3000]
    coordinator_run
  by simp

subsection \<open>Penalty\<close>

text \<open>
  C4. The validator of the penalty question accepts an integer exactly when it is not
  negative: zero is accepted, although the message of a rejection speaks of a penalty
  greater than zero. A negative answer is rejected with that message and the question is
  asked again; a negative value that reaches the statements after the prompt makes the
  process exit with \<^verbatim>\<open>GENERIC_DATA_INPUT\<close>. A returned penalty that is a number was
  submitted by the operator and is not negative.
\<close>

theorem penalty_accepted_iff_nonnegative:
  "(validate (penalty_question c) p = JsTrue \<longleftrightarrow> 0 \<le> p)
   \<and> validate (penalty_question c) 0 = JsTrue
   \<and> (p < 0 \<longrightarrow>
        validate (penalty_question c) p =
          Message (theme_red c (symbols_error c @ '' You must provide a penalty greater than zero'')) \<and>
        prompts (penalty_question c) (Submit p # rest) = prompts (penalty_question c) rest \<and>
        after_penalty t d s e m (Some p) = Exited GENERIC_DATA_INPUT)
   \<and> (0 \<le> p \<longrightarrow>
        prompts (penalty_question c) (Submit p # rest) = Returned (Some p) \<and>
        (\<exists>r. after_penalty t d s e m (Some p) = Returned r \<and> penalty r = Some p))
   \<and> (askCeremonyInputData c extractPrefix ceremoniesPrefixes op = Returned r' \<and>
        penalty r' = Some p' \<longrightarrow> 0 \<le> p' \<and> Submit p' \<in> set (penalty_in op))"
proof (intro conjI impI)
  assume "askCeremonyInputData c extractPrefix ceremoniesPrefixes op = Returned r' \<and>
    penalty r' = Some p'"
  then have run: "askCeremonyInputData c extractPrefix ceremoniesPrefixes op = Returned r'"
    and p': "penalty r' = Some p'" by simp_all
  from run obtain t d now s e m p where
    q: "prompts (penalty_question c) (penalty_in op) = Returned p" and
    r: "r' = \<lparr>title = Some t, description = Some d, startDate = Some s, endDate = Some e,
           timeoutMechanismType = (if js_truthy_bool m then DYNAMIC else FIXED), penalty = p\<rparr>"
    by (rule askCeremonyInputData_Returned)
  from r p' have "p = Some p'" by simp
  with q have "prompts (penalty_question c) (penalty_in op) = Returned (Some p')" by simp
  from prompts_answer[OF this] show "0 \<le> p'" and "Submit p' \<in> set (penalty_in op)" by simp_all
qed (simp_all add: after_penalty_def showError_def, simp_all add: penalty_question_def)

theorem penalty_accepted_iff_nonnegative_witness:
  "validate (penalty_question plain) 0 = JsTrue
   \<and> validate (penalty_question plain) (- 5) =
        Message ''x You must provide a penalty greater than zero''
   \<and> prompts (penalty_question plain) (penalty_in coordinator) = Returned (Some 0)
   \<and> after_penalty None None None None None (Some (- 5)) = Exited GENERIC_DATA_INPUT
   \<and> (\<exists>r. askCeremonyInputData plain (\<lambda>s. s) [''old''] coordinator = Returned r \<and>
          penalty r = Some 0 \<and> Submit 0 \<in> set (penalty_in coordinator))"
  using penalty_accepted_iff_nonnegative [of plain "- 5" "[Submit 0]" None None None None None
      "\<lambda>s. s" "[''old'']" coordinator
      "\<lparr>title = Some ''fresh'', description = Some ''a ceremony'', startDate = Some 2000,
        endDate = Some 3000, timeoutMechanismType = DYNAMIC, penalty = Some 0\<rparr>" 0]
    penalty_accepted_iff_nonnegative [of plain 0 "[]"]
    coordinator_run
  by (simp add: coordinator_def plain_def)

subsection \<open>Abandoned questions\<close>

text \<open>
  C5. When the title, the description or the opening date is unset after the first group
  of questions, or the closing date is unset after its question, the process exits with
  \<^verbatim>\<open>GENERIC_DATA_INPUT\<close>; a returned \<^verbatim>\<open>CeremonyInputData\<close> has all four.
\<close>

theorem abandoned_ceremony_question_exits:
  "(prompts_noEndDateCeremonyQuestions c extractPrefix ceremoniesPrefixes op = Returned (t, d, s) \<and>
      (t = None \<or> d = None \<or> s = None) \<longrightarrow>
      askCeremonyInputData c extractPrefix ceremoniesPrefixes op = Exited GENERIC_DATA_INPUT)
   \<and> (prompts_noEndDateCeremonyQuestions c extractPrefix ceremoniesPrefixes op = Returned (t, d, s) \<and>
      prompts (endDate_question c s) (endDate_in op) = Returned None \<longrightarrow>
      askCeremonyInputData c extractPrefix ceremoniesPrefixes op = Exited GENERIC_DATA_INPUT)
   \<and> (askCeremonyInputData c extractPrefix ceremoniesPrefixes op = Returned r \<longrightarrow>
      title r \<noteq> None \<and> CeremonyInputData.description r \<noteq> None \<and> startDate r \<noteq> None \<and> endDate r \<noteq> None)"
proof (intro conjI impI)
  assume "askCeremonyInputData c extractPrefix ceremoniesPrefixes op = Returned r"
  then obtain t d now s e m p where
    "r = \<lparr>title = Some t, description = Some d, startDate = Some s, endDate = Some e,
           timeoutMechanismType = (if js_truthy_bool m then DYNAMIC else FIXED), penalty = p\<rparr>"
    by (rule askCeremonyInputData_Returned)
  then show "title r \<noteq> None" "CeremonyInputData.description r \<noteq> None" "startDate r \<noteq> None" "endDate r \<noteq> None"
    by simp_all
qed (auto simp add: askCeremonyInputData_def showError_def)

theorem abandoned_ceremony_question_exits_witness:
  "prompts_noEndDateCeremonyQuestions plain (\<lambda>s. s) [''old''] (coordinator\<lparr>description_in := [Cancel]\<rparr>)
     = Returned (Some ''fresh'', None, None)
   \<and> askCeremonyInputData plain (\<lambda>s. s) [''old''] (coordinator\<lparr>description_in := [Cancel]\<rparr>)
     = Exited GENERIC_DATA_INPUT
   \<and> prompts_noEndDateCeremonyQuestions plain (\<lambda>s. s) [''old''] (coordinator\<lparr>endDate_in := [Submit 2000, Cancel]\<rparr>)
     = Returned (Some ''fresh'', Some ''a ceremony'', Some 2000)
   \<and> askCeremonyInputData plain (\<lambda>s. s) [''old''] (coordinator\<lparr>endDate_in := [Submit 2000, Cancel]\<rparr>)
     = Exited GENERIC_DATA_INPUT
   \<and> (\<exists>r. askCeremonyInputData plain (\<lambda>s. s) [''old''] coordinator = Returned r \<and>
          title r \<noteq> None \<and> CeremonyInputData.description r \<noteq> None \<and>
          startDate r \<noteq> None \<and> endDate r \<noteq> None)"
  using abandoned_ceremony_question_exits [of plain "\<lambda>s. s" "[''old'']"
      "coordinator\<lparr>description_in := [Cancel]\<rparr>" "Some ''fresh''" None None]
    abandoned_ceremony_question_exits [of plain "\<lambda>s. s" "[''old'']"
      "coordinator\<lparr>endDate_in := [Submit 2000, Cancel]\<rparr>" "Some ''fresh''" "Some ''a ceremony''"
      "Some 2000"]
    abandoned_ceremony_question_exits [of plain "\<lambda>s. s" "[''old'']" coordinator _ _ _
      "\<lparr>title = Some ''fresh'', description = Some ''a ceremony'', startDate = Some 2000,
        endDate = Some 3000, timeoutMechanismType = DYNAMIC, penalty = Some 0\<rparr>"]
    coordinator_run
  by (simp add: prompts_noEndDateCeremonyQuestions_def coordinator_def)

subsection \<open>Titles\<close>

text \<open>
  C6. The validator of the title question accepts a title exactly when it is not empty and
  its prefix is unique in the sense of \<open>isUniquePrefix\<close>; a non-empty title gets the
  duplicate message exactly when its extracted prefix is among the known prefixes, and the
  empty title is rejected as well. \<open>isUniquePrefix\<close> is false exactly when the extracted
  prefix is a known one. The title of a returned \<^verbatim>\<open>CeremonyInputData\<close> passed both checks.
\<close>

theorem title_duplicate_iff_prefix_known:
  "(validate (title_question c extractPrefix ceremoniesPrefixes) t = JsTrue \<longleftrightarrow>
      t \<noteq> [] \<and> isUniquePrefix extractPrefix t ceremoniesPrefixes)
   \<and> (t \<noteq> [] \<longrightarrow>
        (validate (title_question c extractPrefix ceremoniesPrefixes) t =
           Message (theme_red c (symbols_error c @ '' The title is already in use for another ceremony!''))
         \<longleftrightarrow> extractPrefix t \<in> set ceremoniesPrefixes))
   \<and> validate (title_question c extractPrefix ceremoniesPrefixes) [] =
        Message (theme_red c (symbols_error c @ '' You must provide a valid title for your ceremony!''))
   \<and> (isUniquePrefix extractPrefix t ceremoniesPrefixes = False \<longleftrightarrow>
        extractPrefix t \<in> set ceremoniesPrefixes)
   \<and> (askCeremonyInputData c extractPrefix ceremoniesPrefixes op = Returned r \<longrightarrow>
        (\<exists>t'. title r = Some t' \<and> t' \<noteq> [] \<and> extractPrefix t' \<notin> set ceremoniesPrefixes \<and>
              Submit t' \<in> set (title_in op)))"
proof (intro conjI impI)
  assume "askCeremonyInputData c extractPrefix ceremoniesPrefixes op = Returned r"
  then obtain t' d now s e m p where
    q: "prompts (title_question c extractPrefix ceremoniesPrefixes) (title_in op) = Returned (Some t')" and
    r: "r = \<lparr>title = Some t', description = Some d, startDate = Some s, endDate = Some e,
           timeoutMechanismType = (if js_truthy_bool m then DYNAMIC else FIXED), penalty = p\<rparr>"
    by (rule askCeremonyInputData_Returned)
  from prompts_answer[OF q] r
  show "\<exists>t'. title r = Some t' \<and> t' \<noteq> [] \<and> extractPrefix t' \<notin> set ceremoniesPrefixes \<and>
              Submit t' \<in> set (title_in op)"
    by simp
qed (simp_all add: isUniquePrefix_def title_question_def)

theorem title_duplicate_iff_prefix_known_witness:
  "validate (title_question plain (\<lambda>s. s) [''old'']) ''old'' =
     Message ''x The title is already in use for another ceremony!''
   \<and> \<not> isUniquePrefix (\<lambda>s. s) ''old'' [''old'']
   \<and> validate (title_question plain (\<lambda>s. s) [''old'']) ''fresh'' = JsTrue
   \<and> isUniquePrefix (\<lambda>s. s) ''fresh'' [''old'']
   \<and> validate (title_question plain (\<lambda>s. s) [''old'']) [] =
     Message ''x You must provide a valid title for your ceremony!''
   \<and> (\<exists>r. askCeremonyInputData plain (\<lambda>s. s) [''old''] coordinator = Returned r \<and>
          title r = Some ''fresh'')"
  using title_duplicate_iff_prefix_known [of plain "\<lambda>s. s" "[''old'']" "''old''" coordinator
      "\<lparr>title = Some ''fresh'', description = Some ''a ceremony'', startDate = Some 2000,
        endDate = Some 3000, timeoutMechanismType = DYNAMIC, penalty = Some 0\<rparr>"]
    title_duplicate_iff_prefix_known [of plain "\<lambda>s. s" "[''old'']" "''fresh''"]
    coordinator_run
  by (simp add: plain_def)

subsection \<open>An abandoned penalty question\<close>

lemma askForConfirmation_acted:
  assumes "script \<noteq> []"
  shows "\<exists>m. askForConfirmation c question active inactive script = Returned m"
proof (cases script)
  case Nil
  with assms show ?thesis by simp
next
  case (Cons a rest)
  then show ?thesis by (cases a) (simp_all add: askForConfirmation_def)
qed

text \<open>
  C9. Cancelling the penalty question leaves \<^verbatim>\<open>penalty\<close> unset. The check after the
  prompt fires for numbers below zero only, so with an unset penalty the statements after
  the prompt return the object with \<^verbatim>\<open>penalty\<close> unset, whatever the other variables
  hold. A run that reaches the penalty question (the four earlier answers are present and
  the operator has acted at the toggle) and has it cancelled returns such an object.
\<close>

theorem abandoned_penalty_is_returned:
  "prompts (penalty_question c) (Cancel # rest) = Returned None
   \<and> after_penalty t d s e m None =
       Returned \<lparr>title = t, description = d, startDate = s, endDate = e,
                 timeoutMechanismType = (if js_truthy_bool m then DYNAMIC else FIXED),
                 penalty = None\<rparr>
   \<and> (prompts_noEndDateCeremonyQuestions c extractPrefix ceremoniesPrefixes op =
         Returned (Some t', Some d', Some s') \<and>
       prompts (endDate_question c (Some s')) (endDate_in op) = Returned (Some e') \<and>
       confirmation_in op \<noteq> [] \<and>
       prompts (penalty_question c) (penalty_in op) = Returned None \<longrightarrow>
       (\<exists>r. askCeremonyInputData c extractPrefix ceremoniesPrefixes op = Returned r \<and>
             penalty r = None \<and> title r = Some t' \<and> CeremonyInputData.description r = Some d' \<and>
             startDate r = Some s' \<and> endDate r = Some e'))"
proof (intro conjI impI)
  assume h: "prompts_noEndDateCeremonyQuestions c extractPrefix ceremoniesPrefixes op =
         Returned (Some t', Some d', Some s') \<and>
       prompts (endDate_question c (Some s')) (endDate_in op) = Returned (Some e') \<and>
       confirmation_in op \<noteq> [] \<and>
       prompts (penalty_question c) (penalty_in op) = Returned None"
  then have ne: "t' \<noteq> [] \<and> d' \<noteq> []" using noEndDate_answers by blast
  from h obtain m' where m': "askForConfirmation c
       ''Choose which timeout mechanism you would like to use to penalize blocking contributors''
       ''Dynamic'' ''Fixed'' (confirmation_in op) = Returned m'"
    using askForConfirmation_acted by blast
  from h ne m'
  show "\<exists>r. askCeremonyInputData c extractPrefix ceremoniesPrefixes op = Returned r \<and>
             penalty r = None \<and> title r = Some t' \<and> CeremonyInputData.description r = Some d' \<and>
             startDate r = Some s' \<and> endDate r = Some e'"
    by (simp add: askCeremonyInputData_def after_penalty_def showError_def)
qed (simp_all add: after_penalty_def showError_def)

theorem abandoned_penalty_is_returned_witness:
  "prompts (penalty_question plain) [Submit (- 5), Cancel] = Returned None
   \<and> askCeremonyInputData plain (\<lambda>s. s) [''old''] (coordinator\<lparr>penalty_in := [Submit (- 5), Cancel]\<rparr>) =
       Returned \<lparr>title = Some ''fresh'', description = Some ''a ceremony'', startDate = Some 2000,
                 endDate = Some 3000, timeoutMechanismType = DYNAMIC, penalty = None\<rparr>"
  using abandoned_penalty_is_returned [of plain "[]" None None None None None "\<lambda>s. s" "[''old'']"
      "coordinator\<lparr>penalty_in := [Submit (- 5), Cancel]\<rparr>" "''fresh''" "''a ceremony''" 2000 3000]
  by (simp add: prompts_noEndDateCeremonyQuestions_def coordinator_def
      askCeremonyInputData_def after_penalty_def showError_def askForConfirmation_def)

section \<open>Properties of the circuit builder\<close>

lemma circuit_description_valid [simp]:
  "validate (circuitQuestions c) v = JsTrue \<longleftrightarrow> v \<noteq> []"
  by (simp add: circuitQuestions_def)

lemma threshold_valid [simp]:
  "validate (threshold_question c) v = JsTrue \<longleftrightarrow> 0 \<le> v \<and> v \<le> 100"
  by (auto simp add: threshold_question_def)

lemma maxContributionWaitingTime_valid [simp]:
  "validate (maxContributionWaitingTime_question c) v = JsTrue \<longleftrightarrow> 0 < v"
  by (auto simp add: maxContributionWaitingTime_question_def)

lemma askCircuitInputData_FIXED:
  "askCircuitInputData c FIXED op =
     await (prompts (circuitQuestions c) (circuit_description_in op)) (\<lambda>d.
     await (prompts (maxContributionWaitingTime_question c) (maxContributionWaitingTime_in op)) (\<lambda>w.
     await (after_maxContributionWaitingTime w) (\<lambda>w'.
     circuit_result FIXED d (Some 0) w')))"
proof -
  have assoc: "await (await m f) g = await m (\<lambda>x. await (f x) g)" for m :: "'x outcome"
    and f :: "'x \<Rightarrow> 'y outcome" and g :: "'y \<Rightarrow> 'z outcome"
    by (cases m) simp_all
  show ?thesis by (simp add: askCircuitInputData_def assoc)
qed

lemma askCircuitInputData_DYNAMIC:
  "askCircuitInputData c DYNAMIC op =
     await (prompts (circuitQuestions c) (circuit_description_in op)) (\<lambda>d.
     await (prompts (threshold_question c) (threshold_in op)) (\<lambda>t.
     await (after_threshold t) (\<lambda>t'.
     circuit_result DYNAMIC d t' (Some 0))))"
proof -
  have assoc: "await (await m f) g = await m (\<lambda>x. await (f x) g)" for m :: "'x outcome"
    and f :: "'x \<Rightarrow> 'y outcome" and g :: "'y \<Rightarrow> 'z outcome"
    by (cases m) simp_all
  show ?thesis by (simp add: askCircuitInputData_def assoc)
qed

subsection \<open>The waiting time under the fixed mechanism\<close>

text \<open>
  C7. Under \<^verbatim>\<open>FIXED\<close> the validator of the waiting-time question accepts exactly the
  values above zero. An answered value that is not above zero is asked again by the prompt
  and, where it reaches the statements after the prompt, makes the process exit with
  \<^verbatim>\<open>GENERIC_DATA_INPUT\<close>. When the question is answered and the function returns, the
  object holds the answered value in \<^verbatim>\<open>timeoutMaxContributionWaitingTime\<close>, it is above
  zero, and the object has no \<^verbatim>\<open>timeoutThreshold\<close>. With the description answered as
  well the function does return.
\<close>

theorem fixed_waiting_time_positive:
  "(validate (maxContributionWaitingTime_question c) v = JsTrue \<longleftrightarrow> 0 < v)
   \<and> (v \<le> 0 \<longrightarrow>
        prompts (maxContributionWaitingTime_question c) (Submit v # rest) =
          prompts (maxContributionWaitingTime_question c) rest \<and>
        after_maxContributionWaitingTime (Some v) = Exited GENERIC_DATA_INPUT)
   \<and> (0 < v \<longrightarrow> after_maxContributionWaitingTime (Some v) = Returned (Some v))
   \<and> (prompts (maxContributionWaitingTime_question c) (maxContributionWaitingTime_in op) =
         Returned (Some w) \<and>
       askCircuitInputData c FIXED op = Returned r \<longrightarrow>
        timeoutMaxContributionWaitingTime r = Some (Some w) \<and> 0 < w \<and> timeoutThreshold r = None)
   \<and> (prompts (circuitQuestions c) (circuit_description_in op) = Returned (Some d) \<and>
       prompts (maxContributionWaitingTime_question c) (maxContributionWaitingTime_in op) =
         Returned (Some w) \<longrightarrow>
        askCircuitInputData c FIXED op =
          Returned \<lparr>description = Some d, timeoutThreshold = None,
                    timeoutMaxContributionWaitingTime = Some (Some w)\<rparr>)"
proof (intro conjI impI)
  assume h: "prompts (maxContributionWaitingTime_question c) (maxContributionWaitingTime_in op) =
         Returned (Some w) \<and> askCircuitInputData c FIXED op = Returned r"
  then have w: "0 < w" using prompts_answer by fastforce
  from h w have "timeoutMaxContributionWaitingTime r = Some (Some w) \<and> timeoutThreshold r = None"
    by (auto simp add: askCircuitInputData_FIXED after_maxContributionWaitingTime_def
        circuit_result_def showError_def await_Returned split: if_splits)
  with w show "timeoutMaxContributionWaitingTime r = Some (Some w)" "0 < w" "timeoutThreshold r = None"
    by simp_all
next
  assume h: "prompts (circuitQuestions c) (circuit_description_in op) = Returned (Some d) \<and>
       prompts (maxContributionWaitingTime_question c) (maxContributionWaitingTime_in op) =
         Returned (Some w)"
  then have "d \<noteq> []" "0 < w" using prompts_answer by fastforce+
  with h show "askCircuitInputData c FIXED op =
          Returned \<lparr>description = Some d, timeoutThreshold = None,
                    timeoutMaxContributionWaitingTime = Some (Some w)\<rparr>"
    by (simp add: askCircuitInputData_FIXED after_maxContributionWaitingTime_def
        circuit_result_def showError_def)
qed (simp_all add: after_maxContributionWaitingTime_def showError_def)

theorem fixed_waiting_time_positive_witness:
  "validate (maxContributionWaitingTime_question plain) 0 \<noteq> JsTrue
   \<and> after_maxContributionWaitingTime (Some 0) = Exited GENERIC_DATA_INPUT
   \<and> after_maxContributionWaitingTime (Some 30) = Returned (Some 30)
   \<and> prompts (maxContributionWaitingTime_question plain) [Submit 0, Submit 30] = Returned (Some 30)
   \<and> askCircuitInputData plain FIXED
        \<lparr>circuit_description_in = [Submit ''multiplier''], threshold_in = [],
         maxContributionWaitingTime_in = [Submit 0, Submit 30]\<rparr> =
       Returned \<lparr>description = Some ''multiplier'', timeoutThreshold = None,
                 timeoutMaxContributionWaitingTime = Some (Some 30)\<rparr>"
  using fixed_waiting_time_positive [of plain 0 "[Submit 30]"
      "\<lparr>circuit_description_in = [Submit ''multiplier''], threshold_in = [],
         maxContributionWaitingTime_in = [Submit 0, Submit 30]\<rparr>" 30
      "\<lparr>description = Some ''multiplier'', timeoutThreshold = None,
                 timeoutMaxContributionWaitingTime = Some (Some 30)\<rparr>" "''multiplier''"]
    fixed_waiting_time_positive [of plain 30 "[]"]
  by simp

subsection \<open>An abandoned policy question\<close>

text \<open>
  C10, as amended. Under \<^verbatim>\<open>DYNAMIC\<close>, cancelling the threshold question leaves
  \<^verbatim>\<open>threshold\<close> unset; the bound check after the prompt does not fire, and in the final
  re-validation the disjunct on \<^verbatim>\<open>timeoutThreshold\<close> is false. The final re-validation
  then depends on the description alone: with a description the function returns an object
  whose \<^verbatim>\<open>timeoutThreshold\<close> holds \<^verbatim>\<open>undefined\<close>, without one the process exits with
  \<^verbatim>\<open>GENERIC_DATA_INPUT\<close>. A run whose description question is answered and whose
  threshold question is cancelled returns.
\<close>

theorem abandoned_threshold_is_returned:
  "prompts (threshold_question c) (Cancel # rest) = Returned None
   \<and> after_threshold None = Returned None
   \<and> \<not> js_lt None (Some 0)
   \<and> (\<not> js_not_text d \<longrightarrow>
        circuit_result DYNAMIC d None w =
          Returned \<lparr>description = d, timeoutThreshold = Some None,
                    timeoutMaxContributionWaitingTime = None\<rparr>)
   \<and> (js_not_text d \<longrightarrow> circuit_result DYNAMIC d None w = Exited GENERIC_DATA_INPUT)
   \<and> (prompts (circuitQuestions c) (circuit_description_in op) = Returned (Some d') \<and>
       prompts (threshold_question c) (threshold_in op) = Returned None \<longrightarrow>
        askCircuitInputData c DYNAMIC op =
          Returned \<lparr>description = Some d', timeoutThreshold = Some None,
                    timeoutMaxContributionWaitingTime = None\<rparr>)"
proof (intro conjI impI)
  assume h: "prompts (circuitQuestions c) (circuit_description_in op) = Returned (Some d') \<and>
       prompts (threshold_question c) (threshold_in op) = Returned None"
  then have "d' \<noteq> []" using prompts_answer by fastforce
  with h show "askCircuitInputData c DYNAMIC op =
          Returned \<lparr>description = Some d', timeoutThreshold = Some None,
                    timeoutMaxContributionWaitingTime = None\<rparr>"
    by (simp add: askCircuitInputData_DYNAMIC after_threshold_def circuit_result_def showError_def)
qed (simp_all add: after_threshold_def circuit_result_def showError_def)

theorem abandoned_threshold_is_returned_witness:
  "prompts (threshold_question plain) [Submit 101, Cancel] = Returned None
   \<and> askCircuitInputData plain DYNAMIC
        \<lparr>circuit_description_in = [Submit ''multiplier''], threshold_in = [Submit 101, Cancel],
         maxContributionWaitingTime_in = []\<rparr> =
       Returned \<lparr>description = Some ''multiplier'', timeoutThreshold = Some None,
                 timeoutMaxContributionWaitingTime = None\<rparr>
   \<and> circuit_result DYNAMIC None None (Some 0) = Exited GENERIC_DATA_INPUT
   \<and> circuit_result DYNAMIC (Some ''multiplier'') None (Some 0) =
       Returned \<lparr>description = Some ''multiplier'', timeoutThreshold = Some None,
                 timeoutMaxContributionWaitingTime = None\<rparr>"
  using abandoned_threshold_is_returned [of plain "[]" "None" "Some 0"
      "\<lparr>circuit_description_in = [Submit ''multiplier''], threshold_in = [Submit 101, Cancel],
         maxContributionWaitingTime_in = []\<rparr>" "''multiplier''"]
    abandoned_threshold_is_returned [of plain "[]" "Some ''multiplier''" "Some 0"]
  by simp

text \<open>
  Without the proviso on the description the statement of C10 fails: an operator who
  cancels the description question and then the threshold question gets no object, the
  process exits on the missing description.
\<close>

theorem abandoned_threshold_counterexample:
  "prompts (threshold_question plain) [Cancel] = Returned None
   \<and> askCircuitInputData plain DYNAMIC
        \<lparr>circuit_description_in = [Cancel], threshold_in = [Cancel],
         maxContributionWaitingTime_in = []\<rparr> = Exited GENERIC_DATA_INPUT"
  by (simp add: askCircuitInputData_DYNAMIC after_threshold_def circuit_result_def showError_def)

text \<open>
  C1. Every returned \<^verbatim>\<open>CircuitInputData\<close> should have exactly one populated policy
  field, the one of the mechanism. The function does build the object with the key of the
  mechanism only, but where the operator cancels the policy question the checks after the
  prompt let \<^verbatim>\<open>undefined\<close> through, and the returned object holds \<^verbatim>\<open>undefined\<close>
  under that key: neither field is populated. The runs below show it under either
  mechanism.
\<close>

theorem abandoned_policy_question_populates_neither:
  "askCircuitInputData plain DYNAMIC
        \<lparr>circuit_description_in = [Submit ''multiplier''], threshold_in = [Cancel],
         maxContributionWaitingTime_in = []\<rparr> =
       Returned \<lparr>description = Some ''multiplier'', timeoutThreshold = Some None,
                 timeoutMaxContributionWaitingTime = None\<rparr>
   \<and> askCircuitInputData plain FIXED
        \<lparr>circuit_description_in = [Submit ''multiplier''], threshold_in = [],
         maxContributionWaitingTime_in = [Cancel]\<rparr> =
       Returned \<lparr>description = Some ''multiplier'', timeoutThreshold = None,
                 timeoutMaxContributionWaitingTime = Some None\<rparr>
   \<and> \<not> populated (Some None) \<and> \<not> populated None"
  by (simp add: askCircuitInputData_DYNAMIC askCircuitInputData_FIXED after_threshold_def
      after_maxContributionWaitingTime_def circuit_result_def showError_def populated_def)

section \<open>Properties of the selection prompts\<close>

declare digits.simps [simp del]

lemma select_answer:
  "select choices script = Returned (Some v) \<Longrightarrow> v \<in> choice_value ` set choices"
proof (induction choices script rule: select.induct)
  case (4 ch chs i rest)
  show ?case
  proof (cases "i < length (ch # chs)")
    case True
    with "4.prems" have "v = choice_value ((ch # chs) ! i)" by simp
    moreover from True have "(ch # chs) ! i \<in> set (ch # chs)" by (rule nth_mem)
    ultimately show ?thesis by blast
  next
    case False
    with 4 show ?thesis by simp
  qed
qed simp_all

subsection \<open>Powers of Tau files\<close>

lemma ptau_choices_filter:
  "ptau_choices extractPoT suggestedPowers ptausDirents choices =
     choices @ map (\<lambda>d. \<lparr>choice_title = dirent_name d, choice_description = None,
                          choice_value = dirent_name d\<rparr>)
                (filter (\<lambda>d. js_ge (extractPoT (dirent_name d)) (Some suggestedPowers)) ptausDirents)"
  by (induction ptausDirents arbitrary: choices) (simp_all add: Let_def)

lemma ptau_choices_values:
  "map choice_value (ptau_choices extractPoT suggestedPowers ptausDirents []) =
     filter (ptau_validate extractPoT suggestedPowers) (map dirent_name ptausDirents)"
  by (simp add: ptau_choices_filter filter_map comp_def ptau_validate_def)

lemma ptau_choices_titles:
  "map choice_title (ptau_choices extractPoT suggestedPowers ptausDirents []) =
     map choice_value (ptau_choices extractPoT suggestedPowers ptausDirents [])"
  by (simp add: ptau_choices_filter)

lemma extractPoT_examples:
  "extractPoTFromFilename ''pot10.ptau'' = Some 10"
  "extractPoTFromFilename ''pot12.ptau'' = Some 12"
  "extractPoTFromFilename ''pot14.ptau'' = Some 14"
  by (simp_all add: extractPoTFromFilename_def is_digit_def decimal_def digit_value_def)

text \<open>
  C3. The choices built for the Powers of Tau files are, in the order of the directory
  listing, exactly the entries whose extracted power is at least \<^verbatim>\<open>suggestedPowers\<close>,
  each shown under its own name; the others are left out. When the select prompt yields no
  selection, which is always so when no entry is eligible, the process exits with
  \<^verbatim>\<open>GENERIC_CIRCUIT_SELECTION\<close>; a returned name is an eligible entry of the listing.
  With the extractor that reads the numeric suffix, a threshold of 12 and the files
  \<^verbatim>\<open>pot10.ptau\<close>, \<^verbatim>\<open>pot12.ptau\<close>, \<^verbatim>\<open>pot14.ptau\<close>, the choices are
  \<^verbatim>\<open>pot12.ptau\<close> and \<^verbatim>\<open>pot14.ptau\<close>.
\<close>

theorem ptau_choices_exactly_eligible:
  "map choice_value (ptau_choices extractPoT suggestedPowers ptausDirents []) =
     filter (\<lambda>n. js_ge (extractPoT n) (Some suggestedPowers)) (map dirent_name ptausDirents)
   \<and> map choice_title (ptau_choices extractPoT suggestedPowers ptausDirents []) =
       map choice_value (ptau_choices extractPoT suggestedPowers ptausDirents [])
   \<and> (select (ptau_choices extractPoT suggestedPowers ptausDirents []) script = Returned None \<longrightarrow>
        askForPtauSelectionFromLocalDir extractPoT ptausDirents suggestedPowers script =
          Exited GENERIC_CIRCUIT_SELECTION)
   \<and> (ptau_choices extractPoT suggestedPowers ptausDirents [] = [] \<longrightarrow>
        askForPtauSelectionFromLocalDir extractPoT ptausDirents suggestedPowers script =
          Exited GENERIC_CIRCUIT_SELECTION)
   \<and> (askForPtauSelectionFromLocalDir extractPoT ptausDirents suggestedPowers script = Returned ptau \<longrightarrow>
        (\<exists>n. ptau = Some n \<and> n \<in> dirent_name ` set ptausDirents \<and>
             js_ge (extractPoT n) (Some suggestedPowers)))
   \<and> map choice_value (ptau_choices extractPoTFromFilename 12
         [\<lparr>dirent_name = ''pot10.ptau''\<rparr>, \<lparr>dirent_name = ''pot12.ptau''\<rparr>,
          \<lparr>dirent_name = ''pot14.ptau''\<rparr>] []) = [''pot12.ptau'', ''pot14.ptau'']"
proof (intro conjI impI)
  show "map choice_value (ptau_choices extractPoT suggestedPowers ptausDirents []) =
     filter (\<lambda>n. js_ge (extractPoT n) (Some suggestedPowers)) (map dirent_name ptausDirents)"
    using ptau_choices_values [of extractPoT suggestedPowers ptausDirents]
    by (simp add: ptau_validate_def [abs_def])
next
  show "map choice_title (ptau_choices extractPoT suggestedPowers ptausDirents []) =
       map choice_value (ptau_choices extractPoT suggestedPowers ptausDirents [])"
    by (rule ptau_choices_titles)
next
  assume "select (ptau_choices extractPoT suggestedPowers ptausDirents []) script = Returned None"
  then show "askForPtauSelectionFromLocalDir extractPoT ptausDirents suggestedPowers script =
          Exited GENERIC_CIRCUIT_SELECTION"
    by (simp add: askForPtauSelectionFromLocalDir_def showError_def)
next
  assume "ptau_choices extractPoT suggestedPowers ptausDirents [] = []"
  then show "askForPtauSelectionFromLocalDir extractPoT ptausDirents suggestedPowers script =
          Exited GENERIC_CIRCUIT_SELECTION"
    by (simp add: askForPtauSelectionFromLocalDir_def showError_def)
next
  assume run: "askForPtauSelectionFromLocalDir extractPoT ptausDirents suggestedPowers script =
    Returned ptau"
  then obtain n where n: "ptau = Some n"
    and sel: "select (ptau_choices extractPoT suggestedPowers ptausDirents []) script = Returned (Some n)"
    by (auto simp add: askForPtauSelectionFromLocalDir_def showError_def await_Returned
        split: if_splits)
  from select_answer [OF sel]
  have "n \<in> set (map choice_value (ptau_choices extractPoT suggestedPowers ptausDirents []))"
    by simp
  then have "n \<in> dirent_name ` set ptausDirents \<and> js_ge (extractPoT n) (Some suggestedPowers)"
    unfolding ptau_choices_values by (auto simp add: ptau_validate_def)
  with n show "\<exists>n. ptau = Some n \<and> n \<in> dirent_name ` set ptausDirents \<and>
             js_ge (extractPoT n) (Some suggestedPowers)"
    by simp
next
  show "map choice_value (ptau_choices extractPoTFromFilename 12
         [\<lparr>dirent_name = ''pot10.ptau''\<rparr>, \<lparr>dirent_name = ''pot12.ptau''\<rparr>,
          \<lparr>dirent_name = ''pot14.ptau''\<rparr>] []) = [''pot12.ptau'', ''pot14.ptau'']"
    by (simp add: extractPoT_examples)
qed

theorem ptau_choices_exactly_eligible_witness:
  "select (ptau_choices extractPoTFromFilename 12 [\<lparr>dirent_name = ''pot10.ptau''\<rparr>] []) [Submit 0]
     = Returned None
   \<and> askForPtauSelectionFromLocalDir extractPoTFromFilename [\<lparr>dirent_name = ''pot10.ptau''\<rparr>] 12
       [Submit 0] = Exited GENERIC_CIRCUIT_SELECTION
   \<and> askForPtauSelectionFromLocalDir extractPoTFromFilename
       [\<lparr>dirent_name = ''pot10.ptau''\<rparr>, \<lparr>dirent_name = ''pot12.ptau''\<rparr>,
        \<lparr>dirent_name = ''pot14.ptau''\<rparr>] 12 [Cancel] = Exited GENERIC_CIRCUIT_SELECTION
   \<and> askForPtauSelectionFromLocalDir extractPoTFromFilename
       [\<lparr>dirent_name = ''pot10.ptau''\<rparr>, \<lparr>dirent_name = ''pot12.ptau''\<rparr>,
        \<lparr>dirent_name = ''pot14.ptau''\<rparr>] 12 [Submit 1] = Returned (Some ''pot14.ptau'')
   \<and> js_ge (extractPoTFromFilename ''pot14.ptau'') (Some 12)"
  using ptau_choices_exactly_eligible [of extractPoTFromFilename 12 "[\<lparr>dirent_name = ''pot10.ptau''\<rparr>]"
      "[Submit 0]"]
    ptau_choices_exactly_eligible [of extractPoTFromFilename 12
      "[\<lparr>dirent_name = ''pot10.ptau''\<rparr>, \<lparr>dirent_name = ''pot12.ptau''\<rparr>,
        \<lparr>dirent_name = ''pot14.ptau''\<rparr>]" "[Cancel]"]
    ptau_choices_exactly_eligible [of extractPoTFromFilename 12
      "[\<lparr>dirent_name = ''pot10.ptau''\<rparr>, \<lparr>dirent_name = ''pot12.ptau''\<rparr>,
        \<lparr>dirent_name = ''pot14.ptau''\<rparr>]" "[Submit 1]" "Some ''pot14.ptau''"]
  by (simp add: extractPoT_examples askForPtauSelectionFromLocalDir_def showError_def)

subsection \<open>Opened ceremonies\<close>

lemma ceremony_choices_length:
  "length (ceremony_choices c clock i docs choices) = length choices + length docs"
  by (induction docs arbitrary: i choices) simp_all

lemma ceremony_choices_map:
  "ceremony_choices c clock i docs choices =
     choices @ map (\<lambda>(j, doc). ceremony_choice c (clock j) doc) (zip [i..<i + length docs] docs)"
proof (induction docs arbitrary: i choices)
  case Nil
  show ?case by simp
next
  case (Cons doc docs)
  have "[i..<i + length (doc # docs)] = i # [Suc i..<Suc i + length docs]"
    by (subst upt_rec) simp
  with Cons.IH [of "Suc i" "choices @ [ceremony_choice c (clock i) doc]"]
  show ?case by simp
qed

lemma ceremony_choices_nth:
  assumes "k < length docs"
  shows "ceremony_choices c clock 0 docs [] ! k = ceremony_choice c (clock k) (docs ! k)"
  using assms by (simp add: ceremony_choices_map)

lemma daysLeft_rounds_up:
  "\<bar>now - e\<bar> \<le> daysLeft now e * day_ms \<and> (daysLeft now e - 1) * day_ms < \<bar>now - e\<bar>"
proof -
  define a where "a = \<bar>now - e\<bar>"
  define x where "x = real_of_int a / 86400000"
  have d: "daysLeft now e = \<lceil>x\<rceil>" by (simp add: daysLeft_def x_def a_def)
  have a: "real_of_int a = x * 86400000" by (simp add: x_def)
  have "x * 86400000 \<le> of_int \<lceil>x\<rceil> * 86400000"
    using le_of_int_ceiling [of x] by simp
  then have "real_of_int a \<le> real_of_int (\<lceil>x\<rceil> * 86400000)"
    by (simp add: a)
  then have up: "a \<le> \<lceil>x\<rceil> * 86400000" by (simp only: of_int_le_iff)
  have "(of_int \<lceil>x\<rceil> - 1) * 86400000 < x * 86400000"
    using ceiling_correct [of x] by simp
  then have "real_of_int ((\<lceil>x\<rceil> - 1) * 86400000) < real_of_int a"
    by (simp add: a)
  then have low: "(\<lceil>x\<rceil> - 1) * 86400000 < a" by (simp only: of_int_less_iff)
  from up low d show ?thesis by (simp add: day_ms_def a_def)
qed

lemma daysLeft_three_ahead: "daysLeft now (now + 3 * day_ms) = 3"
  by (simp add: daysLeft_def day_ms_def)

lemma daysLeft_three_past: "daysLeft now (now - 3 * day_ms) = 3"
  by (simp add: daysLeft_def day_ms_def)

lemma js_string_of_int_3: "js_string_of_int 3 = ''3''"
  by (simp add: js_string_of_int_def digits.simps)

lemma daysLeft_part_of_a_day: "daysLeft 1000 999 = 1"
proof -
  from daysLeft_rounds_up [of 1000 999]
  have "0 < daysLeft 1000 999 * 86400000" and "(daysLeft 1000 999 - 1) * 86400000 \<le> 0"
    by (simp_all add: day_ms_def)
  then have "0 < daysLeft 1000 999" and "daysLeft 1000 999 - 1 \<le> 0"
    by (simp_all add: zero_less_mult_iff mult_le_0_iff)
  then show ?thesis by linarith
qed

lemma daysLeft_three_days: "daysLeft 1000 259201000 = 3"
  by (simp add: daysLeft_def)

lemma js_string_of_int_1: "js_string_of_int 1 = ''1''"
  by (simp add: js_string_of_int_def digits.simps)

text \<open>
  C8. For every document shown by \<^verbatim>\<open>askForCeremonySelection\<close>, the description of
  its choice is the document's description followed by the days figure and a label. The
  figure is the absolute difference between the clock reading and \<^verbatim>\<open>endDate\<close> in days,
  rounded up: the least number of whole days that covers the difference. The label is
  \<^verbatim>\<open>days left\<close> when \<^verbatim>\<open>endDate\<close> is strictly after the clock reading and
  \<^verbatim>\<open>days gone since closing\<close> otherwise. Three days ahead reads \<^verbatim>\<open>3 days left\<close>,
  three days past reads \<^verbatim>\<open>3 days gone since closing\<close>.
\<close>

theorem ceremony_days_figure_and_label:
  "(i < length openedCeremoniesDocs \<longrightarrow>
      choice_description (ceremony_choices c clock 0 openedCeremoniesDocs [] ! i) =
        Some (data_description (openedCeremoniesDocs ! i) @ '' ('' @
          theme_magenta c (js_string_of_int
            (daysLeft (clock i) (data_endDate (openedCeremoniesDocs ! i)))) @ '' '' @
          (if clock i < data_endDate (openedCeremoniesDocs ! i)
           then ''days left'' else ''days gone since closing'') @ '')'') \<and>
      choice_title (ceremony_choices c clock 0 openedCeremoniesDocs [] ! i) =
        data_title (openedCeremoniesDocs ! i) \<and>
      choice_value (ceremony_choices c clock 0 openedCeremoniesDocs [] ! i) =
        openedCeremoniesDocs ! i)
   \<and> length (ceremony_choices c clock 0 openedCeremoniesDocs []) = length openedCeremoniesDocs
   \<and> \<bar>now - e\<bar> \<le> daysLeft now e * day_ms
   \<and> (daysLeft now e - 1) * day_ms < \<bar>now - e\<bar>
   \<and> choice_description (ceremony_choice c now (doc\<lparr>data_endDate := now + 3 * day_ms\<rparr>)) =
       Some (data_description doc @ '' ('' @ theme_magenta c ''3'' @ '' days left)'')
   \<and> choice_description (ceremony_choice c now (doc\<lparr>data_endDate := now - 3 * day_ms\<rparr>)) =
       Some (data_description doc @ '' ('' @ theme_magenta c ''3'' @ '' days gone since closing)'')"
proof (intro conjI impI)
  assume i: "i < length openedCeremoniesDocs"
  have less: "clock i - data_endDate (openedCeremoniesDocs ! i) < 0 \<longleftrightarrow>
      clock i < data_endDate (openedCeremoniesDocs ! i)"
    by arith
  from i show "choice_description (ceremony_choices c clock 0 openedCeremoniesDocs [] ! i) =
        Some (data_description (openedCeremoniesDocs ! i) @ '' ('' @
          theme_magenta c (js_string_of_int
            (daysLeft (clock i) (data_endDate (openedCeremoniesDocs ! i)))) @ '' '' @
          (if clock i < data_endDate (openedCeremoniesDocs ! i)
           then ''days left'' else ''days gone since closing'') @ '')'')"
    by (simp only: ceremony_choices_nth ceremony_choice_def less Choice.simps)
  from i show "choice_title (ceremony_choices c clock 0 openedCeremoniesDocs [] ! i) =
        data_title (openedCeremoniesDocs ! i)"
    by (simp add: ceremony_choices_nth ceremony_choice_def)
  from i show "choice_value (ceremony_choices c clock 0 openedCeremoniesDocs [] ! i) =
        openedCeremoniesDocs ! i"
    by (simp add: ceremony_choices_nth ceremony_choice_def)
next
  show "length (ceremony_choices c clock 0 openedCeremoniesDocs []) = length openedCeremoniesDocs"
    by (simp add: ceremony_choices_length)
next
  show "\<bar>now - e\<bar> \<le> daysLeft now e * day_ms" and "(daysLeft now e - 1) * day_ms < \<bar>now - e\<bar>"
    using daysLeft_rounds_up [of now e] by simp_all
next
  have "0 < day_ms" by (simp add: day_ms_def)
  then show "choice_description (ceremony_choice c now (doc\<lparr>data_endDate := now + 3 * day_ms\<rparr>)) =
       Some (data_description doc @ '' ('' @ theme_magenta c ''3'' @ '' days left)'')"
    by (simp add: ceremony_choice_def daysLeft_three_ahead js_string_of_int_3)
next
  have "0 < day_ms" by (simp add: day_ms_def)
  then show "choice_description (ceremony_choice c now (doc\<lparr>data_endDate := now - 3 * day_ms\<rparr>)) =
       Some (data_description doc @ '' ('' @ theme_magenta c ''3'' @ '' days gone since closing)'')"
    by (simp add: ceremony_choice_def daysLeft_three_past js_string_of_int_3)
qed

theorem ceremony_days_figure_and_label_witness:
  "choice_description (ceremony_choices plain (\<lambda>_. 1000) 0
      [\<lparr>doc_id = ''a'', data_title = ''first'', data_description = ''demo'',
        data_endDate = 259201000\<rparr>,
       \<lparr>doc_id = ''b'', data_title = ''second'', data_description = ''closed'',
        data_endDate = 999\<rparr>] [] ! 1) = Some ''closed (1 days gone since closing)''
   \<and> daysLeft 1000 999 = 1
   \<and> choice_description (ceremony_choices plain (\<lambda>_. 1000) 0
      [\<lparr>doc_id = ''a'', data_title = ''first'', data_description = ''demo'',
        data_endDate = 259201000\<rparr>,
       \<lparr>doc_id = ''b'', data_title = ''second'', data_description = ''closed'',
        data_endDate = 999\<rparr>] [] ! 0) = Some ''demo (3 days left)''"
  using ceremony_days_figure_and_label [of 1 "[\<lparr>doc_id = ''a'', data_title = ''first'',
        data_description = ''demo'', data_endDate = 259201000\<rparr>,
       \<lparr>doc_id = ''b'', data_title = ''second'', data_description = ''closed'',
        data_endDate = 999\<rparr>]" plain "\<lambda>_. 1000" 0 0
      "\<lparr>doc_id = ''b'', data_title = ''second'', data_description = ''closed'',
        data_endDate = 999\<rparr>"]
    ceremony_days_figure_and_label [of 0 "[\<lparr>doc_id = ''a'', data_title = ''first'',
        data_description = ''demo'', data_endDate = 259201000\<rparr>,
       \<lparr>doc_id = ''b'', data_title = ''second'', data_description = ''closed'',
        data_endDate = 999\<rparr>]" plain "\<lambda>_. 1000" 0 0
      "\<lparr>doc_id = ''b'', data_title = ''second'', data_description = ''closed'',
        data_endDate = 999\<rparr>"]
  by (simp add: daysLeft_part_of_a_day daysLeft_three_days js_string_of_int_1
      js_string_of_int_3 plain_def)

end
